theory Spec2Isabelle
  imports Main "HOL-Library.Word"
begin

section \<open>The cached application of the shim (pkg/cache/application.go)\<close>

text \<open>
  A shallow embedding of \<^verbatim>\<open>Application\<close>: the state machine built in
  \<^verbatim>\<open>NewApplication\<close>, \<^verbatim>\<open>handle\<close>, \<^verbatim>\<open>Schedule\<close> and the callbacks registered on the state
  machine.  A method that mutates the application takes the application and returns the
  updated one; what a method asks of its collaborators (scheduler API, dispatcher, event
  recorder, placeholder manager, the task's own state machine, the logger) is returned as a
  list of effects, in program order.  Locks are not modelled: every method below runs to
  completion on its own.
\<close>

subsection \<open>States and events (package events)\<close>

text \<open>
  The state and event names are string constants of package \<^verbatim>\<open>events\<close>; each declared
  constant is a constructor here.
\<close>

datatype app_state =
  App_New | App_Submitted | App_Recovering | App_Accepted | App_Reserving | App_Running
  | App_Completed | App_Rejected | App_Failed | App_Killing | App_Killed

datatype app_event =
  SubmitApplication | RecoverApplication | AcceptApplication | TryReserve
  | UpdateReservation | RunApplication | ReleaseAppAllocation | ReleaseAppAllocationAsk
  | CompleteApplication | RejectApplication | FailApplication | KillApplication
  | KilledApplication

datatype task_state =
  Task_New | Task_Pending | Task_Scheduling | Task_Allocated | Task_Rejected | Task_Bound
  | Task_Killing | Task_Killed | Task_Failed | Task_Completed

datatype task_event = InitTask

text \<open>An event argument is an \<^verbatim>\<open>interface{}\<close>: a string, or a value of another type.\<close>

datatype arg = StrArg string | OtherArg

record ApplicationEvent =
  ev_applicationID :: string
  event :: app_event
  args :: "arg list"

text \<open>
  Modelled from the spec: the event constructors of application\_events.go, which is not
  among the sources.  A simple event, Submit and Run carry no argument; Fail carries its
  message; ReleaseAllocationAsk carries the task identifier and the termination type.
\<close>

definition NewSimpleApplicationEvent :: "string \<Rightarrow> app_event \<Rightarrow> ApplicationEvent" where
  "NewSimpleApplicationEvent appID e = \<lparr>ev_applicationID = appID, event = e, args = []\<rparr>"

definition NewSubmitApplicationEvent :: "string \<Rightarrow> ApplicationEvent" where
  "NewSubmitApplicationEvent appID =
     \<lparr>ev_applicationID = appID, event = SubmitApplication, args = []\<rparr>"

definition NewRunApplicationEvent :: "string \<Rightarrow> ApplicationEvent" where
  "NewRunApplicationEvent appID =
     \<lparr>ev_applicationID = appID, event = RunApplication, args = []\<rparr>"

definition NewFailApplicationEvent :: "string \<Rightarrow> string \<Rightarrow> ApplicationEvent" where
  "NewFailApplicationEvent appID message =
     \<lparr>ev_applicationID = appID, event = FailApplication, args = [StrArg message]\<rparr>"

definition NewReleaseAppAllocationAskEvent :: "string \<Rightarrow> string \<Rightarrow> string \<Rightarrow> ApplicationEvent" where
  "NewReleaseAppAllocationAskEvent appID terminationTypeStr taskId =
     \<lparr>ev_applicationID = appID, event = ReleaseAppAllocationAsk,
      args = [StrArg taskId, StrArg terminationTypeStr]\<rparr>"

text \<open>
  Modelled from the spec: \<^verbatim>\<open>events.GetEventArgsAsStrings(result, generic)\<close>, which is not
  among the sources.  The first argument is the capacity of the result array.  A non-empty
  argument list must have exactly that many entries, all of them strings; an empty list
  leaves the result array as it was made (empty strings).
\<close>

fun args_as_strings :: "arg list \<Rightarrow> string list option" where
  "args_as_strings [] = Some []"
| "args_as_strings (StrArg s # xs) = map_option ((#) s) (args_as_strings xs)"
| "args_as_strings (OtherArg # xs) = None"

definition GetEventArgsAsStrings :: "nat \<Rightarrow> arg list \<Rightarrow> string + string list" where
  "GetEventArgsAsStrings n generic =
     (if generic \<noteq> [] then
        (if length generic \<noteq> n then Inl ''size of result array is not the size of the arguments''
         else case args_as_strings generic of
                None \<Rightarrow> Inl ''argument is not a string''
              | Some ss \<Rightarrow> Inr ss)
      else Inr (replicate n ''''))"

subsection \<open>Resources (si.Resource, resource.Quantity, package common)\<close>

text \<open>
  \<^verbatim>\<open>si.Resource\<close> maps a resource name to an \<^verbatim>\<open>int64\<close> value.  A Kubernetes
  \<^verbatim>\<open>resource.Quantity\<close> is kept as its exact amount in thousandths of the base unit:
  \<^verbatim>\<open>500m\<close> is 500, \<^verbatim>\<open>500Mi\<close> is \<open>500 * 2^20 * 1000\<close>.
\<close>

type_synonym Resource = "string \<rightharpoonup> 64 word"
type_synonym Quantity = int

definition Ki :: int where "Ki = 1024"
definition Mi :: "int \<Rightarrow> Quantity" where "Mi n = n * Ki * Ki * 1000"
definition milli :: "int \<Rightarrow> Quantity" where "milli n = n"

definition ceil_div :: "int \<Rightarrow> int \<Rightarrow> int" where
  "ceil_div a b = - ((- a) div b)"

text \<open>
  Modelled from the spec: the conversions of a quantity to a whole number of units, each
  rounding up: milli-units for CPU, units of \<open>10^6\<close> for memory (the spec's
  \<^verbatim>\<open>500Mi -> 525\<close>), whole base units for every other resource.  The result is an
  \<^verbatim>\<open>int64\<close>.
\<close>

definition MilliValue :: "Quantity \<Rightarrow> 64 word" where
  "MilliValue q = word_of_int q"

definition ScaledValue_Mega :: "Quantity \<Rightarrow> 64 word" where
  "ScaledValue_Mega q = word_of_int (ceil_div q (1000 * 1000000))"

definition Value :: "Quantity \<Rightarrow> 64 word" where
  "Value q = word_of_int (ceil_div q 1000)"

definition CPU :: string where "CPU = ''vcore''"
definition Memory :: string where "Memory = ''memory''"

text \<open>
  Modelled from the spec: \<^verbatim>\<open>common.GetTGResource(resMap, members)\<close>, which is not among the
  sources: per resource dimension, the per-member quantity rounded up to a whole unit,
  times the member count.  The entries of the Go map \<^verbatim>\<open>resMap\<close> are an association list.
\<close>

definition tg_entry :: "64 word \<Rightarrow> string \<times> Quantity \<Rightarrow> Resource \<Rightarrow> Resource" where
  "tg_entry members e r =
     (case e of (resName, resValue) \<Rightarrow>
        if resName = ''cpu'' then r(CPU \<mapsto> members * MilliValue resValue)
        else if resName = ''memory'' then r(Memory \<mapsto> members * ScaledValue_Mega resValue)
        else r(resName \<mapsto> members * Value resValue))"

definition GetTGResource :: "(string \<times> Quantity) list \<Rightarrow> 64 word \<Rightarrow> Resource" where
  "GetTGResource resMap members = fold (tg_entry members) resMap Map.empty"

text \<open>
  Modelled from the spec: \<^verbatim>\<open>common.Add(left, right)\<close>, which is not among the sources: the
  sum of two resources, dimension by dimension; a \<^verbatim>\<open>nil\<close> resource adds nothing, and the
  result is never \<^verbatim>\<open>nil\<close>.
\<close>

definition add_res :: "Resource \<Rightarrow> Resource \<Rightarrow> Resource" where
  "add_res left right =
     (\<lambda>k. case right k of
             None \<Rightarrow> left k
           | Some er \<Rightarrow> (case left k of None \<Rightarrow> Some er | Some v \<Rightarrow> Some (er + v)))"

definition Add :: "Resource option \<Rightarrow> Resource option \<Rightarrow> Resource" where
  "Add left right =
     add_res (case left of None \<Rightarrow> Map.empty | Some l \<Rightarrow> l)
             (case right of None \<Rightarrow> Map.empty | Some r \<Rightarrow> r)"

subsection \<open>Task groups and their instance counts\<close>

text \<open>
  Modelled from the spec: \<^verbatim>\<open>v1alpha1.TaskGroup\<close>, whose declaration is not among the sources:
  name, minimum member count (\<^verbatim>\<open>int32\<close>), per-member minimum resources, and the node
  selector and tolerations, which the application only stores.
\<close>

record TaskGroup =
  Name :: string
  MinMember :: "32 word"
  MinResource :: "(string \<times> Quantity) list"
  NodeSelector :: "(string \<times> string) list"
  Tolerations :: "string list"

text \<open>
  Modelled from the spec: \<^verbatim>\<open>utils.TaskGroupInstanceCountMap\<close>, which is not among the
  sources: a count (\<^verbatim>\<open>int32\<close>) per task group name.  \<^verbatim>\<open>Add\<close> adds to the count of a name,
  starting a new entry when the name has none, and \<^verbatim>\<open>AddOne\<close> adds one.  \<^verbatim>\<open>Equals\<close> is the
  comparison of section 4.2 of the specification, "desired equals actual for every group":
  every count of the receiver is the count that the target gives for that name (zero for a
  name the target does not have).
\<close>

type_synonym TaskGroupInstanceCountMap = "(string \<times> 32 word) list"

definition NewTaskGroupInstanceCountMap :: TaskGroupInstanceCountMap where
  "NewTaskGroupInstanceCountMap = []"

fun count_update :: "string \<Rightarrow> 32 word \<Rightarrow> TaskGroupInstanceCountMap \<Rightarrow> TaskGroupInstanceCountMap" where
  "count_update g delta [] = [(g, delta)]"
| "count_update g delta ((k, v) # m) =
     (if k = g then (k, v + delta) # m else (k, v) # count_update g delta m)"

definition count_Add :: "string \<Rightarrow> 32 word \<Rightarrow> TaskGroupInstanceCountMap \<Rightarrow> TaskGroupInstanceCountMap" where
  "count_Add g num m = count_update g num m"

definition count_AddOne :: "string \<Rightarrow> TaskGroupInstanceCountMap \<Rightarrow> TaskGroupInstanceCountMap" where
  "count_AddOne g m = count_update g 1 m"

definition GetTaskGroupInstanceCount :: "TaskGroupInstanceCountMap \<Rightarrow> string \<Rightarrow> 32 word" where
  "GetTaskGroupInstanceCount m g = (case map_of m g of None \<Rightarrow> 0 | Some v \<Rightarrow> v)"

definition count_Equals :: "TaskGroupInstanceCountMap \<Rightarrow> TaskGroupInstanceCountMap \<Rightarrow> bool" where
  "count_Equals t target = list_all (\<lambda>(k, v). GetTaskGroupInstanceCount target k = v) t"

subsection \<open>Tasks and the application\<close>

text \<open>
  Modelled from the spec: \<^verbatim>\<open>Task\<close> (task.go, which is not among the sources), as far as the
  application reads and writes it: the task capability surface of section 6 of the
  specification.  \<^verbatim>\<open>createTime\<close> is a point in time, as a number; the state of a task is
  moved by the task's own state machine, which is a collaborator here.
\<close>

record Task =
  taskID :: string
  task_alias :: string
  task_applicationID :: string
  state :: task_state
  placeholder :: bool
  taskGroupName :: string
  allocationUUID :: string
  createTime :: int
  terminationType :: string
  pod :: string

text \<open>
  Modelled from the spec: the accessors of \<^verbatim>\<open>Task\<close>: its current state, its placeholder flag,
  and the setter that records the termination type.
\<close>

definition GetTaskState :: "Task \<Rightarrow> task_state" where
  "GetTaskState t = state t"

definition IsPlaceholder :: "Task \<Rightarrow> bool" where
  "IsPlaceholder t = placeholder t"

definition setTaskTerminationType :: "string \<Rightarrow> Task \<Rightarrow> Task" where
  "setTaskTerminationType terminationTypeStr t = t\<lparr>terminationType := terminationTypeStr\<rparr>"

record SchedulingPolicy =
  policy_Type :: string
  policy_Parameters :: "(string \<times> string) list"

text \<open>
  \<^verbatim>\<open>taskMap\<close> is a Go map: its entries are kept as an association list with one entry per
  key, whose order stands for the order in which a \<^verbatim>\<open>range\<close> visits them.  \<^verbatim>\<open>sm\<close> is the
  current state of the state machine; \<^verbatim>\<open>placeholderAsk\<close> is a pointer, \<^verbatim>\<open>nil\<close> until the first
  task group is registered.
\<close>

record Application =
  applicationID :: string
  queue :: string
  partitionName :: string
  user :: string
  taskMap :: "(string \<times> Task) list"
  tags :: "(string \<times> string) list"
  schedulingPolicy :: SchedulingPolicy
  taskGroups :: "TaskGroup list"
  placeholderOwnerReferences :: "string list"
  sm :: app_state
  placeholderAsk :: "Resource option"
  placeholderTimeoutInSec :: "64 word"

text \<open>
  Modelled from the spec: \<^verbatim>\<open>constants.DefaultPartition\<close>, the fixed partition of a new
  application; the constant is not among the sources.
\<close>

definition DefaultPartition :: string where
  "DefaultPartition = ''[mycluster]default''"

definition NewApplication :: "string \<Rightarrow> string \<Rightarrow> string \<Rightarrow> (string \<times> string) list \<Rightarrow> Application" where
  "NewApplication appID queueName usr tgs =
     \<lparr>applicationID = appID, queue = queueName, partitionName = DefaultPartition, user = usr,
      taskMap = [], tags = tgs,
      schedulingPolicy = \<lparr>policy_Type = [], policy_Parameters = []\<rparr>,
      taskGroups = [], placeholderOwnerReferences = [], sm = App_New,
      placeholderAsk = None, placeholderTimeoutInSec = 0\<rparr>"

subsection \<open>Requests and effects\<close>

record AddApplicationRequest =
  req_ApplicationID :: string
  req_QueueName :: string
  req_PartitionName :: string
  req_Ugi_User :: string
  req_Tags :: "(string \<times> string) list"
  req_PlaceholderAsk :: "Resource option"
  req_ExecutionTimeoutMilliSeconds :: "64 word"

record UpdateRequest =
  NewApplications :: "AddApplicationRequest list"
  RmID :: string

datatype log_level = Debug | Info | Warn | Error

text \<open>
  What the application asks of its collaborators.  \<^verbatim>\<open>Go\<close> is a goroutine started by the
  callback, with what it does; \<^verbatim>\<open>RecorderEvent\<close> is a pod event of the event recorder (the
  task whose pod it is about, the event type, the reason and the message); \<^verbatim>\<open>TaskHandle\<close> is
  an event handed to the task's own state machine.
\<close>

datatype effect =
    Log log_level string
  | SchedulerUpdate UpdateRequest
  | Dispatch ApplicationEvent
  | SanityCheck Task
  | TaskHandle Task task_event
  | RecorderEvent Task string string string
  | DeleteTaskPod Task
  | CreateAppPlaceholders
  | CleanUp
  | Go "effect list"

text \<open>
  The answers of the collaborators: the error (if any) of \<^verbatim>\<open>schedulerAPI.Update\<close>, of the
  task's \<^verbatim>\<open>sanityCheckBeforeScheduling\<close>, \<^verbatim>\<open>handle\<close> and \<^verbatim>\<open>DeleteTaskPod\<close>, and of the
  placeholder manager's \<^verbatim>\<open>createAppPlaceholders\<close>; and the cluster identifier of the
  scheduler configuration.
\<close>

record env =
  Update :: "UpdateRequest \<Rightarrow> string option"
  ClusterID :: string
  sanityCheckBeforeScheduling :: "Task \<Rightarrow> string option"
  task_handle :: "Task \<Rightarrow> task_event \<Rightarrow> string option"
  DeleteTaskPod_err :: "Task \<Rightarrow> string option"
  createAppPlaceholders :: "string option"

subsection \<open>Accessors and setters\<close>


definition tg_step :: "Resource option \<Rightarrow> TaskGroup \<Rightarrow> Resource option" where
  "tg_step ask taskGroup =
     Some (Add ask (Some (GetTGResource (MinResource taskGroup) (scast (MinMember taskGroup)))))"

definition setTaskGroups :: "TaskGroup list \<Rightarrow> Application \<Rightarrow> Application" where
  "setTaskGroups tgs app =
     app\<lparr>taskGroups := tgs, placeholderAsk := foldl tg_step (placeholderAsk app) tgs\<rparr>"

definition getPlaceholderAsk :: "Application \<Rightarrow> Resource option" where
  "getPlaceholderAsk app = placeholderAsk app"

definition getTaskGroups :: "Application \<Rightarrow> TaskGroup list" where
  "getTaskGroups app = taskGroups app"


definition addTask :: "Task \<Rightarrow> Application \<Rightarrow> Application" where
  "addTask task app =
     (case map_of (taskMap app) (taskID task) of
        Some _ \<Rightarrow> app
      | None \<Rightarrow> app\<lparr>taskMap := taskMap app @ [(taskID task, task)]\<rparr>)"


definition GetApplicationState :: "Application \<Rightarrow> app_state" where
  "GetApplicationState app = sm app"

text \<open>
  \<^verbatim>\<open>getTasks\<close> collects the tasks in the given state and sorts them by creation time.
  \<^verbatim>\<open>sort.Slice\<close> is not stable; the stable sort here gives one of its possible results.
\<close>

definition getTasks :: "Application \<Rightarrow> task_state \<Rightarrow> Task list" where
  "getTasks app st =
     sort_key createTime (map snd (filter (\<lambda>(k, task). GetTaskState task = st) (taskMap app)))"

definition GetNewTasks :: "Application \<Rightarrow> Task list" where
  "GetNewTasks app = getTasks app Task_New"

definition GetPendingTasks :: "Application \<Rightarrow> Task list" where
  "GetPendingTasks app = getTasks app Task_Pending"

definition GetAllocatedTasks :: "Application \<Rightarrow> Task list" where
  "GetAllocatedTasks app = getTasks app Task_Allocated"

definition SetState :: "app_state \<Rightarrow> Application \<Rightarrow> Application" where
  "SetState s app = app\<lparr>sm := s\<rparr>"


subsection \<open>The callbacks of the state machine\<close>

text \<open>
  The \<^verbatim>\<open>fsm.Event\<close> handed to a callback: the event name, the source and destination state
  and the arguments of the call.
\<close>

record fsm_Event =
  fsm_Event_name :: app_event
  fsm_Src :: app_state
  fsm_Dst :: app_state
  fsm_Args :: "arg list"

definition submit_request :: "env \<Rightarrow> Application \<Rightarrow> UpdateRequest" where
  "submit_request cfg app =
     \<lparr>NewApplications =
        [\<lparr>req_ApplicationID = applicationID app,
          req_QueueName = queue app,
          req_PartitionName = partitionName app,
          req_Ugi_User = user app,
          req_Tags = tags app,
          req_PlaceholderAsk = placeholderAsk app,
          req_ExecutionTimeoutMilliSeconds = placeholderTimeoutInSec app * 1000\<rparr>],
      RmID = ClusterID cfg\<rparr>"

definition handleSubmitApplicationEvent ::
    "env \<Rightarrow> Application \<Rightarrow> fsm_Event \<Rightarrow> Application \<times> effect list" where
  "handleSubmitApplicationEvent cfg app ev =
     (app,
      [Log Info ''handle app submission'', SchedulerUpdate (submit_request cfg app)] @
      (case Update cfg (submit_request cfg app) of
         None \<Rightarrow> []
       | Some err \<Rightarrow> [Log Warn ''failed to submit app'',
                      Dispatch (NewFailApplicationEvent (applicationID app) err)]))"

text \<open>
  The request of the Recover callback sets no \<^verbatim>\<open>PlaceholderAsk\<close>: the field keeps its zero
  value, \<^verbatim>\<open>nil\<close>.
\<close>

definition recover_request :: "env \<Rightarrow> Application \<Rightarrow> UpdateRequest" where
  "recover_request cfg app =
     \<lparr>NewApplications =
        [\<lparr>req_ApplicationID = applicationID app,
          req_QueueName = queue app,
          req_PartitionName = partitionName app,
          req_Ugi_User = user app,
          req_Tags = tags app,
          req_PlaceholderAsk = None,
          req_ExecutionTimeoutMilliSeconds = placeholderTimeoutInSec app * 1000\<rparr>],
      RmID = ClusterID cfg\<rparr>"

definition handleRecoverApplicationEvent ::
    "env \<Rightarrow> Application \<Rightarrow> fsm_Event \<Rightarrow> Application \<times> effect list" where
  "handleRecoverApplicationEvent cfg app ev =
     (app,
      [Log Info ''handle app recovering'', SchedulerUpdate (recover_request cfg app)] @
      (case Update cfg (recover_request cfg app) of
         None \<Rightarrow> []
       | Some err \<Rightarrow> [Log Warn ''failed to submit app'',
                      Dispatch (NewFailApplicationEvent (applicationID app) err)]))"

text \<open>
  \<^verbatim>\<open>postAppAccepted\<close>: in the reserving branch the event is dispatched inside the branch and
  once more by the \<^verbatim>\<open>Dispatch\<close> that ends the function.
\<close>

definition postAppAccepted :: "Application \<Rightarrow> effect list" where
  "postAppAccepted app =
     Log Debug ''postAppAccepted on cached app'' #
     (if length (taskGroups app) \<noteq> 0 \<and> length (getTasks app Task_Allocated) = 0 then
        [Log Info ''app has taskGroups defined, trying to reserve resources for gang members'',
         Dispatch (NewSimpleApplicationEvent (applicationID app) TryReserve),
         Dispatch (NewSimpleApplicationEvent (applicationID app) TryReserve)]
      else [Dispatch (NewRunApplicationEvent (applicationID app))])"

definition onReserving :: "env \<Rightarrow> Application \<Rightarrow> fsm_Event \<Rightarrow> Application \<times> effect list" where
  "onReserving cfg app ev =
     (app,
      [Go (CreateAppPlaceholders #
           (case createAppPlaceholders cfg of
              None \<Rightarrow> []
            | Some err \<Rightarrow> [CleanUp, Dispatch (NewRunApplicationEvent (applicationID app))]))])"

definition desireCounts :: "Application \<Rightarrow> TaskGroupInstanceCountMap" where
  "desireCounts app =
     foldl (\<lambda>m tg. count_Add (Name tg) (MinMember tg) m) NewTaskGroupInstanceCountMap
       (taskGroups app)"

definition actualCounts :: "Application \<Rightarrow> TaskGroupInstanceCountMap" where
  "actualCounts app =
     foldl (\<lambda>m t. if placeholder t then count_AddOne (taskGroupName t) m else m)
       NewTaskGroupInstanceCountMap (getTasks app Task_Bound)"

definition onReservationStateChange ::
    "env \<Rightarrow> Application \<Rightarrow> fsm_Event \<Rightarrow> Application \<times> effect list" where
  "onReservationStateChange cfg app ev =
     (app,
      if count_Equals (desireCounts app) (actualCounts app)
      then [Dispatch (NewRunApplicationEvent (applicationID app))] else [])"

definition handleRejectApplicationEvent ::
    "env \<Rightarrow> Application \<Rightarrow> fsm_Event \<Rightarrow> Application \<times> effect list" where
  "handleRejectApplicationEvent cfg app ev =
     (app,
      [Log Info ''app is rejected by scheduler'',
       Dispatch (NewFailApplicationEvent (applicationID app)
         (''application '' @ applicationID app @ '' is rejected by scheduler''))])"

definition handleCompleteApplicationEvent ::
    "env \<Rightarrow> Application \<Rightarrow> fsm_Event \<Rightarrow> Application \<times> effect list" where
  "handleCompleteApplicationEvent cfg app ev = (app, [Go [CleanUp]])"

definition fail_notification :: "Application \<Rightarrow> string \<Rightarrow> Task \<Rightarrow> effect" where
  "fail_notification app errMess task =
     RecorderEvent task ''Warning'' ''ApplicationFailed''
       (''Application '' @ applicationID app @ '' scheduling failed, reason: '' @ errMess)"

definition handleFailApplicationEvent ::
    "env \<Rightarrow> Application \<Rightarrow> fsm_Event \<Rightarrow> Application \<times> effect list" where
  "handleFailApplicationEvent cfg app ev =
     (app,
      Go [CleanUp] #
      (case GetEventArgsAsStrings 1 (fsm_Args ev) of
         Inl err \<Rightarrow> [Log Error ''fail to parse event arg'']
       | Inr eventArgs \<Rightarrow>
           map (fail_notification app (eventArgs ! 0))
             (getTasks app Task_New @ getTasks app Task_Pending @ getTasks app Task_Scheduling)))"

text \<open>Assignment to a key of a Go map kept as an association list.\<close>

fun assign :: "'k \<Rightarrow> 'v \<Rightarrow> ('k \<times> 'v) list \<Rightarrow> ('k \<times> 'v) list" where
  "assign k v [] = [(k, v)]"
| "assign k v ((k', v') # m) = (if k' = k then (k, v) # m else (k', v') # assign k v m)"

definition delete_pod :: "env \<Rightarrow> string \<Rightarrow> Task \<Rightarrow> effect list" where
  "delete_pod cfg message task =
     DeleteTaskPod task #
     (case DeleteTaskPod_err cfg task of None \<Rightarrow> [] | Some err \<Rightarrow> [Log Error message])"

definition release_task :: "env \<Rightarrow> string \<Rightarrow> string \<Rightarrow> Task \<Rightarrow> Task \<times> effect list" where
  "release_task cfg allocUUID terminationTypeStr task =
     (if allocationUUID task = allocUUID then
        (setTaskTerminationType terminationTypeStr task,
         delete_pod cfg ''failed to release allocation from application''
           (setTaskTerminationType terminationTypeStr task))
      else (task, []))"

definition handleReleaseAppAllocationEvent ::
    "env \<Rightarrow> Application \<Rightarrow> fsm_Event \<Rightarrow> Application \<times> effect list" where
  "handleReleaseAppAllocationEvent cfg app ev =
     (case GetEventArgsAsStrings 2 (fsm_Args ev) of
        Inl err \<Rightarrow> (app, [Log Error ''fail to parse event arg''])
      | Inr eventArgs \<Rightarrow>
          (app\<lparr>taskMap :=
                 map (\<lambda>(k, task). (k, fst (release_task cfg (eventArgs ! 0) (eventArgs ! 1) task)))
                   (taskMap app)\<rparr>,
           Log Info ''try to release pod from application'' #
           concat (map (\<lambda>(k, task). snd (release_task cfg (eventArgs ! 0) (eventArgs ! 1) task))
                     (taskMap app))))"

definition handleReleaseAppAllocationAskEvent ::
    "env \<Rightarrow> Application \<Rightarrow> fsm_Event \<Rightarrow> Application \<times> effect list" where
  "handleReleaseAppAllocationAskEvent cfg app ev =
     (case GetEventArgsAsStrings 2 (fsm_Args ev) of
        Inl err \<Rightarrow> (app, [Log Error ''fail to parse event arg''])
      | Inr eventArgs \<Rightarrow>
          (case map_of (taskMap app) (eventArgs ! 0) of
             Some task \<Rightarrow>
               (app\<lparr>taskMap :=
                      assign (eventArgs ! 0) (setTaskTerminationType (eventArgs ! 1) task)
                        (taskMap app)\<rparr>,
                Log Info ''try to release pod from application'' #
                (if IsPlaceholder (setTaskTerminationType (eventArgs ! 1) task) then
                   delete_pod cfg ''failed to release allocation ask from application''
                     (setTaskTerminationType (eventArgs ! 1) task)
                 else [Log Warn ''skip to release allocation ask, ask is not a placeholder'']))
           | None \<Rightarrow>
               (app, [Log Info ''try to release pod from application'',
                      Log Warn ''task not found''])))"

definition enterState :: "env \<Rightarrow> Application \<Rightarrow> fsm_Event \<Rightarrow> Application \<times> effect list" where
  "enterState cfg app ev = (app, [Log Debug ''shim app state transition''])"

subsection \<open>The state machine (github.com/looplab/fsm) and \<^verbatim>\<open>handle\<close>\<close>

record EventDesc =
  ed_Name :: app_event
  ed_Src :: "app_state list"
  ed_Dst :: app_state

text \<open>The \<^verbatim>\<open>fsm.Events\<close> given to \<^verbatim>\<open>fsm.NewFSM\<close> in \<^verbatim>\<open>NewApplication\<close>, in the order of the source.\<close>

definition app_fsm_events :: "EventDesc list" where
  "app_fsm_events =
    [\<lparr>ed_Name = SubmitApplication, ed_Src = [App_New], ed_Dst = App_Submitted\<rparr>,
     \<lparr>ed_Name = RecoverApplication, ed_Src = [App_New], ed_Dst = App_Recovering\<rparr>,
     \<lparr>ed_Name = AcceptApplication, ed_Src = [App_Submitted, App_Recovering],
       ed_Dst = App_Accepted\<rparr>,
     \<lparr>ed_Name = TryReserve, ed_Src = [App_Accepted], ed_Dst = App_Reserving\<rparr>,
     \<lparr>ed_Name = UpdateReservation, ed_Src = [App_Reserving], ed_Dst = App_Reserving\<rparr>,
     \<lparr>ed_Name = RunApplication, ed_Src = [App_Accepted, App_Reserving, App_Running],
       ed_Dst = App_Running\<rparr>,
     \<lparr>ed_Name = ReleaseAppAllocation, ed_Src = [App_Running], ed_Dst = App_Running\<rparr>,
     \<lparr>ed_Name = ReleaseAppAllocation, ed_Src = [App_Failed], ed_Dst = App_Failed\<rparr>,
     \<lparr>ed_Name = ReleaseAppAllocationAsk, ed_Src = [App_Running, App_Accepted, App_Reserving],
       ed_Dst = App_Running\<rparr>,
     \<lparr>ed_Name = ReleaseAppAllocationAsk, ed_Src = [App_Failed], ed_Dst = App_Failed\<rparr>,
     \<lparr>ed_Name = CompleteApplication, ed_Src = [App_Running], ed_Dst = App_Completed\<rparr>,
     \<lparr>ed_Name = RejectApplication, ed_Src = [App_Submitted], ed_Dst = App_Rejected\<rparr>,
     \<lparr>ed_Name = FailApplication,
       ed_Src = [App_Submitted, App_Rejected, App_Accepted, App_Running, App_Reserving],
       ed_Dst = App_Failed\<rparr>,
     \<lparr>ed_Name = KillApplication, ed_Src = [App_Accepted, App_Running, App_Reserving],
       ed_Dst = App_Killing\<rparr>,
     \<lparr>ed_Name = KilledApplication, ed_Src = [App_Killing], ed_Dst = App_Killed\<rparr>]"

text \<open>
  The library stores the transitions in a map keyed by event and source state, filled in
  the order of the list: a later entry for the same key replaces an earlier one.
\<close>

definition transitions :: "EventDesc list \<Rightarrow> app_event \<Rightarrow> app_state \<Rightarrow> app_state option" where
  "transitions eds e s =
     (case filter (\<lambda>d. ed_Name d = e \<and> s \<in> set (ed_Src d)) eds of
        [] \<Rightarrow> None
      | d # ds \<Rightarrow> Some (ed_Dst (last (d # ds))))"

datatype fsm_error =
  InvalidEventError app_event app_state | UnknownEventError app_event | NoTransitionError

text \<open>
  The \<^verbatim>\<open>fsm.Callbacks\<close> of \<^verbatim>\<open>NewApplication\<close>.  A callback registered under a state name runs
  on entering that state, before the generic \<^verbatim>\<open>enter_state\<close> callback; a callback registered
  under an event name runs after that event.
\<close>

definition enterStateCallbacks ::
    "env \<Rightarrow> Application \<Rightarrow> fsm_Event \<Rightarrow> Application \<times> effect list" where
  "enterStateCallbacks cfg app ev =
     (case (if fsm_Dst ev = App_Reserving then onReserving cfg app ev else (app, [])) of
        (app1, effs1) \<Rightarrow>
          (case enterState cfg app1 ev of (app2, effs2) \<Rightarrow> (app2, effs1 @ effs2)))"

definition afterEventCallbacks ::
    "env \<Rightarrow> Application \<Rightarrow> fsm_Event \<Rightarrow> Application \<times> effect list" where
  "afterEventCallbacks cfg app ev =
     (case fsm_Event_name ev of
        SubmitApplication \<Rightarrow> handleSubmitApplicationEvent cfg app ev
      | RecoverApplication \<Rightarrow> handleRecoverApplicationEvent cfg app ev
      | RejectApplication \<Rightarrow> handleRejectApplicationEvent cfg app ev
      | CompleteApplication \<Rightarrow> handleCompleteApplicationEvent cfg app ev
      | FailApplication \<Rightarrow> handleFailApplicationEvent cfg app ev
      | UpdateReservation \<Rightarrow> onReservationStateChange cfg app ev
      | ReleaseAppAllocation \<Rightarrow> handleReleaseAppAllocationEvent cfg app ev
      | ReleaseAppAllocationAsk \<Rightarrow> handleReleaseAppAllocationAskEvent cfg app ev
      | _ \<Rightarrow> (app, []))"

text \<open>
  \<^verbatim>\<open>FSM.Event\<close> of the library: an event with no transition from the current state is an
  error (\<^verbatim>\<open>InvalidEventError\<close> when the event has a transition from some other state,
  \<^verbatim>\<open>UnknownEventError\<close> otherwise) and nothing runs; a transition to the current state runs
  the after-event callbacks and returns \<^verbatim>\<open>NoTransitionError\<close>; any other transition sets the
  new state, runs the enter-state and the after-event callbacks and returns \<^verbatim>\<open>nil\<close>.
\<close>

definition sm_Event ::
    "env \<Rightarrow> Application \<Rightarrow> app_event \<Rightarrow> arg list \<Rightarrow> fsm_error option \<times> Application \<times> effect list" where
  "sm_Event cfg app e as =
     (case transitions app_fsm_events e (sm app) of
        None \<Rightarrow>
          (Some (if list_ex (\<lambda>d. ed_Name d = e) app_fsm_events
                 then InvalidEventError e (sm app) else UnknownEventError e), app, [])
      | Some dst \<Rightarrow>
          (if sm app = dst then
             (case afterEventCallbacks cfg app
                     \<lparr>fsm_Event_name = e, fsm_Src = sm app, fsm_Dst = dst, fsm_Args = as\<rparr> of
                (app1, effs1) \<Rightarrow> (Some NoTransitionError, app1, effs1))
           else
             (case enterStateCallbacks cfg (app\<lparr>sm := dst\<rparr>)
                     \<lparr>fsm_Event_name = e, fsm_Src = sm app, fsm_Dst = dst, fsm_Args = as\<rparr> of
                (app1, effs1) \<Rightarrow>
                  (case afterEventCallbacks cfg app1
                          \<lparr>fsm_Event_name = e, fsm_Src = sm app, fsm_Dst = dst, fsm_Args = as\<rparr> of
                     (app2, effs2) \<Rightarrow> (None, app2, effs1 @ effs2)))))"

text \<open>
  \<^verbatim>\<open>handle\<close> returns the error of the state machine, except the "no transition" error of a
  transition to the current state.
\<close>

definition handle ::
    "env \<Rightarrow> ApplicationEvent \<Rightarrow> Application \<Rightarrow> fsm_error option \<times> Application \<times> effect list" where
  "handle cfg ev app =
     (case sm_Event cfg app (event ev) (args ev) of
        (err, app1, effs) \<Rightarrow>
          (if err \<noteq> None \<and> err \<noteq> Some NoTransitionError then (err, app1, effs)
           else (None, app1, effs)))"

definition canHandle :: "ApplicationEvent \<Rightarrow> Application \<Rightarrow> bool" where
  "canHandle ev app = (transitions app_fsm_events (event ev) (sm app) \<noteq> None)"

definition TriggerAppRecovery ::
    "env \<Rightarrow> Application \<Rightarrow> fsm_error option \<times> Application \<times> effect list" where
  "TriggerAppRecovery cfg app =
     handle cfg (NewSimpleApplicationEvent (applicationID app) RecoverApplication) app"

subsection \<open>\<^verbatim>\<open>Schedule\<close>\<close>

text \<open>
  One task of the loop of \<^verbatim>\<open>scheduleTasks\<close>: the sanity check, then either the init event
  for the task or the pod event that reports why the task is not ready.
\<close>

definition schedule_task :: "env \<Rightarrow> Task \<Rightarrow> effect list" where
  "schedule_task cfg task =
     SanityCheck task #
     (case sanityCheckBeforeScheduling cfg task of
        None \<Rightarrow>
          TaskHandle task InitTask #
          (case task_handle cfg task InitTask of
             None \<Rightarrow> []
           | Some handleErr \<Rightarrow> [Log Warn ''init task failed''])
      | Some err \<Rightarrow>
          [RecorderEvent task ''Warning'' ''FailedScheduling'' err,
           Log Debug ''task is not ready for scheduling''])"

definition scheduleTasks :: "env \<Rightarrow> (Task \<Rightarrow> bool) \<Rightarrow> Application \<Rightarrow> effect list" where
  "scheduleTasks cfg taskScheduleCondition app =
     concat (map (\<lambda>task. if taskScheduleCondition task then schedule_task cfg task else [])
               (GetNewTasks app))"

definition Schedule :: "env \<Rightarrow> Application \<Rightarrow> Application \<times> effect list" where
  "Schedule cfg app =
     (case GetApplicationState app of
        App_New \<Rightarrow>
          (case handle cfg (NewSubmitApplicationEvent (applicationID app)) app of
             (err, app1, effs) \<Rightarrow>
               (app1, effs @ (case err of
                                None \<Rightarrow> []
                              | Some e \<Rightarrow> [Log Warn ''failed to handle SUBMIT app event''])))
      | App_Accepted \<Rightarrow> (app, postAppAccepted app)
      | App_Reserving \<Rightarrow> (app, scheduleTasks cfg (\<lambda>t. placeholder t) app)
      | App_Running \<Rightarrow> (app, scheduleTasks cfg (\<lambda>t. \<not> placeholder t) app)
      | _ \<Rightarrow> (app, [Log Debug ''skipping scheduling application'']))"

subsection \<open>Reading a list of effects\<close>

fun requests :: "effect list \<Rightarrow> UpdateRequest list" where
  "requests [] = []"
| "requests (SchedulerUpdate r # es) = r # requests es"
| "requests (e # es) = requests es"

fun dispatched :: "effect list \<Rightarrow> ApplicationEvent list" where
  "dispatched [] = []"
| "dispatched (Dispatch ev # es) = ev # dispatched es"
| "dispatched (e # es) = dispatched es"

fun sanity_checked :: "effect list \<Rightarrow> Task list" where
  "sanity_checked [] = []"
| "sanity_checked (SanityCheck t # es) = t # sanity_checked es"
| "sanity_checked (e # es) = sanity_checked es"

fun initialised :: "effect list \<Rightarrow> Task list" where
  "initialised [] = []"
| "initialised (TaskHandle t e # es) = t # initialised es"
| "initialised (e # es) = initialised es"

fun deleted_pods :: "effect list \<Rightarrow> Task list" where
  "deleted_pods [] = []"
| "deleted_pods (DeleteTaskPod t # es) = t # deleted_pods es"
| "deleted_pods (e # es) = deleted_pods es"

fun notified :: "effect list \<Rightarrow> Task list" where
  "notified [] = []"
| "notified (RecorderEvent t ty reason message # es) = t # notified es"
| "notified (e # es) = notified es"

text \<open>What the goroutines started by a callback do.\<close>

fun in_goroutines :: "effect list \<Rightarrow> effect list" where
  "in_goroutines [] = []"
| "in_goroutines (Go gs # es) = gs @ in_goroutines es"
| "in_goroutines (e # es) = in_goroutines es"

subsection \<open>The transition table of the specification\<close>

text \<open>
  The table of section 4.2 of the specification, row by row: event, legal source states,
  destination.
\<close>

definition spec_transition_table :: "(app_event \<times> app_state list \<times> app_state) list" where
  "spec_transition_table =
    [(SubmitApplication, [App_New], App_Submitted),
     (RecoverApplication, [App_New], App_Recovering),
     (AcceptApplication, [App_Submitted, App_Recovering], App_Accepted),
     (TryReserve, [App_Accepted], App_Reserving),
     (UpdateReservation, [App_Reserving], App_Reserving),
     (RunApplication, [App_Accepted, App_Reserving, App_Running], App_Running),
     (ReleaseAppAllocation, [App_Running], App_Running),
     (ReleaseAppAllocation, [App_Failed], App_Failed),
     (ReleaseAppAllocationAsk, [App_Running, App_Accepted, App_Reserving], App_Running),
     (ReleaseAppAllocationAsk, [App_Failed], App_Failed),
     (CompleteApplication, [App_Running], App_Completed),
     (RejectApplication, [App_Submitted], App_Rejected),
     (FailApplication, [App_Submitted, App_Rejected, App_Accepted, App_Running, App_Reserving],
        App_Failed),
     (KillApplication, [App_Accepted, App_Running, App_Reserving], App_Killing),
     (KilledApplication, [App_Killing], App_Killed)]"

definition in_table :: "app_event \<Rightarrow> app_state \<Rightarrow> app_state \<Rightarrow> bool" where
  "in_table e s d =
     list_ex (\<lambda>(e', srcs, d'). e' = e \<and> s \<in> set srcs \<and> d' = d) spec_transition_table"

subsection \<open>Test data\<close>

text \<open>
  The collaborators of the tests (application\_test.go): a scheduler API whose \<^verbatim>\<open>Update\<close>
  succeeds, tasks that pass the sanity check, pods that are deleted without error.
\<close>

definition mock_env :: env where
  "mock_env =
     \<lparr>Update = (\<lambda>request. None), ClusterID = ''my-kube-cluster'',
      sanityCheckBeforeScheduling = (\<lambda>task. None),
      task_handle = (\<lambda>task e. None),
      DeleteTaskPod_err = (\<lambda>task. None),
      createAppPlaceholders = None\<rparr>"

definition app00001 :: Application where
  "app00001 = NewApplication ''app00001'' ''root.abc'' ''testuser'' []"

definition app_submitted :: Application where
  "app_submitted = fst (snd (handle mock_env (NewSubmitApplicationEvent ''app00001'') app00001))"

definition app_running :: Application where
  "app_running = SetState App_Running app00001"

text \<open>Tasks as \<^verbatim>\<open>NewTask\<close> makes them (no allocation, no termination type), in a given state.\<close>

definition test_task :: "string \<Rightarrow> task_state \<Rightarrow> bool \<Rightarrow> string \<Rightarrow> int \<Rightarrow> Task" where
  "test_task tid st ph grp created =
     \<lparr>taskID = tid, task_alias = ''/pod-'' @ tid, task_applicationID = ''app00001'', state = st,
      placeholder = ph, taskGroupName = grp, allocationUUID = [], createTime = created,
      terminationType = [], pod = ''pod-'' @ tid\<rparr>"

definition three_tasks :: "Application \<Rightarrow> Application" where
  "three_tasks app =
     addTask (test_task ''task03'' Task_Pending True ''test-group-1'' 3)
       (addTask (test_task ''task02'' Task_New False [] 2)
          (addTask (test_task ''task01'' Task_New True ''test-group-1'' 1) app))"

definition app_reserving :: Application where
  "app_reserving = SetState App_Reserving (three_tasks app00001)"

definition app_running_tasks :: Application where
  "app_running_tasks = SetState App_Running (three_tasks app00001)"

text \<open>The two task groups of \<^verbatim>\<open>TestSetTaskGroupsAndSchedulingPolicy\<close>.\<close>

definition test_group_1 :: TaskGroup where
  "test_group_1 =
     \<lparr>Name = ''test-group-1'', MinMember = 10,
      MinResource = [(''cpu'', milli 500), (''memory'', Mi 500)],
      NodeSelector = [], Tolerations = []\<rparr>"

definition test_group_2 :: TaskGroup where
  "test_group_2 =
     \<lparr>Name = ''test-group-2'', MinMember = 20,
      MinResource = [(''cpu'', milli 1000), (''memory'', Mi 1000)],
      NodeSelector = [(''locate'', ''west'')], Tolerations = [''nodeType'']\<rparr>"

definition app_accepted_gang :: Application where
  "app_accepted_gang = SetState App_Accepted (setTaskGroups [test_group_1, test_group_2] app00001)"

definition app_accepted_recovered :: Application where
  "app_accepted_recovered =
     addTask (test_task ''task00'' Task_Allocated False [] 0) app_accepted_gang"

text \<open>A ReleaseAllocationAsk event as the state machine hands it to the callback, and a Fail
  event whose argument is not a string.\<close>

definition release_ask_event :: "string \<Rightarrow> fsm_Event" where
  "release_ask_event tid =
     \<lparr>fsm_Event_name = ReleaseAppAllocationAsk, fsm_Src = App_Running, fsm_Dst = App_Running,
      fsm_Args = args (NewReleaseAppAllocationAskEvent ''app00001'' ''TIMEOUT'' tid)\<rparr>"

definition malformed_fail_event :: ApplicationEvent where
  "malformed_fail_event =
     \<lparr>ev_applicationID = ''app00001'', event = FailApplication, args = [OtherArg]\<rparr>"

subsection \<open>Reading a placeholder ask\<close>


definition contribution :: "TaskGroup \<Rightarrow> Resource" where
  "contribution taskGroup = GetTGResource (MinResource taskGroup) (scast (MinMember taskGroup))"


subsection \<open>Desired and actual members of a task group\<close>













section \<open>Properties\<close>

subsection \<open>The state machine\<close>

lemma afterEventCallbacks_sm: "sm (fst (afterEventCallbacks cfg app ev)) = sm app"
  by (cases "fsm_Event_name ev")
     (simp_all add: afterEventCallbacks_def handleSubmitApplicationEvent_def
        handleRecoverApplicationEvent_def handleRejectApplicationEvent_def
        handleCompleteApplicationEvent_def handleFailApplicationEvent_def
        onReservationStateChange_def handleReleaseAppAllocationEvent_def
        handleReleaseAppAllocationAskEvent_def split: sum.splits option.splits)

lemma enterStateCallbacks_sm: "sm (fst (enterStateCallbacks cfg app ev)) = sm app"
  by (simp add: enterStateCallbacks_def onReserving_def enterState_def)

lemma transitions_iff: "transitions app_fsm_events e s = Some d \<longleftrightarrow> in_table e s d"
  by (cases e; cases s;
      simp add: transitions_def app_fsm_events_def in_table_def spec_transition_table_def;
      blast?)

lemma known_event: "list_ex (\<lambda>d. ed_Name d = e) app_fsm_events"
  by (cases e) (simp_all add: app_fsm_events_def)

lemma handle_legal:
  assumes "transitions app_fsm_events (event ev) (sm app) = Some d"
  shows "fst (handle cfg ev app) = None \<and> sm (fst (snd (handle cfg ev app))) = d"
  using assms
  by (simp add: handle_def sm_Event_def case_prod_beta afterEventCallbacks_sm
        enterStateCallbacks_sm)

lemma handle_illegal:
  assumes "transitions app_fsm_events (event ev) (sm app) = None"
  shows "handle cfg ev app = (Some (InvalidEventError (event ev) (sm app)), app, [])"
  using assms by (simp add: handle_def sm_Event_def known_event)

lemma sm_app00001: "sm app00001 = App_New"
  by (simp add: app00001_def NewApplication_def)

lemma sm_app_submitted: "sm app_submitted = App_Submitted"
proof -
  have "transitions app_fsm_events (event (NewSubmitApplicationEvent ''app00001'')) (sm app00001)
          = Some App_Submitted"
    by (simp add: transitions_iff in_table_def spec_transition_table_def
          NewSubmitApplicationEvent_def sm_app00001)
  then show ?thesis
    unfolding app_submitted_def by (simp add: handle_legal)
qed

lemma sm_app_running: "sm app_running = App_Running"
  by (simp add: app_running_def SetState_def)

text \<open>
  C3.  For every event and state that the transition table of section 4.2 lists with a
  destination, \<^verbatim>\<open>handle\<close> returns no error and the application is in that destination
  afterwards; for every event and state that the table does not list, \<^verbatim>\<open>handle\<close> returns an
  error and leaves the application as it was.
\<close>

theorem handle_follows_transition_table:
  "(\<forall>d. in_table (event ev) (sm app) d \<longrightarrow>
      fst (handle cfg ev app) = None \<and> sm (fst (snd (handle cfg ev app))) = d) \<and>
   ((\<forall>d. \<not> in_table (event ev) (sm app) d) \<longrightarrow>
      fst (handle cfg ev app) \<noteq> None \<and> fst (snd (handle cfg ev app)) = app)"
proof (intro conjI allI impI)
  fix d assume "in_table (event ev) (sm app) d"
  then have "transitions app_fsm_events (event ev) (sm app) = Some d"
    by (simp add: transitions_iff)
  then show "fst (handle cfg ev app) = None" "sm (fst (snd (handle cfg ev app))) = d"
    using handle_legal by blast+
next
  assume "\<forall>d. \<not> in_table (event ev) (sm app) d"
  then have "transitions app_fsm_events (event ev) (sm app) = None"
    using transitions_iff by (cases "transitions app_fsm_events (event ev) (sm app)") auto
  then have "handle cfg ev app = (Some (InvalidEventError (event ev) (sm app)), app, [])"
    by (rule handle_illegal)
  then show "fst (handle cfg ev app) \<noteq> None" "fst (snd (handle cfg ev app)) = app"
    by simp_all
qed

theorem handle_follows_transition_table_witness:
  "in_table SubmitApplication App_New App_Submitted \<and>
   fst (handle mock_env (NewSubmitApplicationEvent ''app00001'') app00001) = None \<and>
   sm (fst (snd (handle mock_env (NewSubmitApplicationEvent ''app00001'') app00001)))
     = App_Submitted \<and>
   (\<forall>d. \<not> in_table RunApplication App_New d) \<and>
   fst (handle mock_env (NewRunApplicationEvent ''app00001'') app00001) \<noteq> None \<and>
   fst (snd (handle mock_env (NewRunApplicationEvent ''app00001'') app00001)) = app00001"
proof -
  have a: "in_table (event (NewSubmitApplicationEvent ''app00001'')) (sm app00001) App_Submitted"
    by (simp add: in_table_def spec_transition_table_def NewSubmitApplicationEvent_def
          sm_app00001)
  have b: "\<forall>d. \<not> in_table (event (NewRunApplicationEvent ''app00001'')) (sm app00001) d"
    by (simp add: in_table_def spec_transition_table_def NewRunApplicationEvent_def
          sm_app00001)
  from a b
    handle_follows_transition_table [of "NewSubmitApplicationEvent ''app00001''" app00001 mock_env]
    handle_follows_transition_table [of "NewRunApplicationEvent ''app00001''" app00001 mock_env]
  show ?thesis
    by (simp add: NewSubmitApplicationEvent_def NewRunApplicationEvent_def sm_app00001)
qed

text \<open>
  C4, as the claim states it, fails: a second Submit, handled while the application is in
  Submitted, is not legal from that state, and \<^verbatim>\<open>handle\<close> returns an error (as
  \<^verbatim>\<open>TestSubmitApplication\<close> expects).
\<close>

theorem handle_duplicate_submit_counterexample:
  "sm app_submitted = App_Submitted \<and>
   \<not> canHandle (NewSubmitApplicationEvent ''app00001'') app_submitted \<and>
   fst (handle mock_env (NewSubmitApplicationEvent ''app00001'') app_submitted)
     = Some (InvalidEventError SubmitApplication App_Submitted)"
proof -
  have t: "transitions app_fsm_events (event (NewSubmitApplicationEvent ''app00001''))
             (sm app_submitted) = None"
    by (simp add: sm_app_submitted NewSubmitApplicationEvent_def transitions_def
          app_fsm_events_def)
  show ?thesis
    using t handle_illegal [OF t, of mock_env]
    by (simp add: canHandle_def sm_app_submitted NewSubmitApplicationEvent_def)
qed

lemma self_loop_iff:
  "transitions app_fsm_events e s = Some s \<longleftrightarrow>
     (e, s) \<in> {(UpdateReservation, App_Reserving), (RunApplication, App_Running),
               (ReleaseAppAllocation, App_Running), (ReleaseAppAllocation, App_Failed),
               (ReleaseAppAllocationAsk, App_Running), (ReleaseAppAllocationAsk, App_Failed)}"
  by (cases e; cases s; simp add: transitions_def app_fsm_events_def)

lemma handle_silent_iff:
  "fst (handle cfg ev app) = None \<and> sm (fst (snd (handle cfg ev app))) = sm app \<longleftrightarrow>
     transitions app_fsm_events (event ev) (sm app) = Some (sm app)"
proof (cases "transitions app_fsm_events (event ev) (sm app)")
  case None
  then show ?thesis by (simp add: handle_illegal)
next
  case (Some d)
  then show ?thesis using handle_legal [OF Some, of cfg] by auto
qed

lemma handle_no_error_iff:
  "fst (handle cfg ev app) = None \<longleftrightarrow> canHandle ev app"
proof (cases "transitions app_fsm_events (event ev) (sm app)")
  case None
  then show ?thesis by (simp add: handle_illegal canHandle_def)
next
  case (Some d)
  then show ?thesis using handle_legal [OF Some, of cfg] by (simp add: canHandle_def)
qed

text \<open>
  C4, amended.  An event that is not legal from the current state is an error that names
  the event and the state; the application is left as it was and no callback runs.
  \<^verbatim>\<open>handle\<close> returns no error exactly for the events that are legal from the current state,
  and it returns no error and leaves the state where it was exactly for the six pairs of
  the transition table whose destination is their source: UpdateReservation in Reserving,
  Run in Running, ReleaseAllocation in Running or Failed, ReleaseAllocationAsk in Running
  or Failed.
\<close>

theorem handle_illegal_event_is_error:
  "(\<not> canHandle ev app \<longrightarrow>
      handle cfg ev app = (Some (InvalidEventError (event ev) (sm app)), app, [])) \<and>
   (fst (handle cfg ev app) = None \<longleftrightarrow> canHandle ev app) \<and>
   (fst (handle cfg ev app) = None \<and> sm (fst (snd (handle cfg ev app))) = sm app \<longleftrightarrow>
      (event ev, sm app) \<in>
        {(UpdateReservation, App_Reserving), (RunApplication, App_Running),
         (ReleaseAppAllocation, App_Running), (ReleaseAppAllocation, App_Failed),
         (ReleaseAppAllocationAsk, App_Running), (ReleaseAppAllocationAsk, App_Failed)})"
proof (intro conjI impI)
  assume "\<not> canHandle ev app"
  then show "handle cfg ev app = (Some (InvalidEventError (event ev) (sm app)), app, [])"
    by (simp add: canHandle_def handle_illegal)
next
  show "fst (handle cfg ev app) = None \<longleftrightarrow> canHandle ev app"
    by (rule handle_no_error_iff)
next
  show "fst (handle cfg ev app) = None \<and> sm (fst (snd (handle cfg ev app))) = sm app \<longleftrightarrow>
      (event ev, sm app) \<in>
        {(UpdateReservation, App_Reserving), (RunApplication, App_Running),
         (ReleaseAppAllocation, App_Running), (ReleaseAppAllocation, App_Failed),
         (ReleaseAppAllocationAsk, App_Running), (ReleaseAppAllocationAsk, App_Failed)}"
    unfolding handle_silent_iff by (rule self_loop_iff)
qed

theorem handle_illegal_event_is_error_witness:
  "\<not> canHandle (NewSubmitApplicationEvent ''app00001'') app_submitted \<and>
   handle mock_env (NewSubmitApplicationEvent ''app00001'') app_submitted
     = (Some (InvalidEventError SubmitApplication App_Submitted), app_submitted, []) \<and>
   canHandle (NewRunApplicationEvent ''app00001'') app_running \<and>
   fst (handle mock_env (NewRunApplicationEvent ''app00001'') app_running) = None \<and>
   sm (fst (snd (handle mock_env (NewRunApplicationEvent ''app00001'') app_running)))
     = sm app_running \<and>
   canHandle (NewSubmitApplicationEvent ''app00001'') app00001 \<and>
   fst (handle mock_env (NewSubmitApplicationEvent ''app00001'') app00001) = None \<and>
   sm (fst (snd (handle mock_env (NewSubmitApplicationEvent ''app00001'') app00001)))
     \<noteq> sm app00001"
proof -
  have a: "\<not> canHandle (NewSubmitApplicationEvent ''app00001'') app_submitted"
    by (simp add: canHandle_def sm_app_submitted NewSubmitApplicationEvent_def transitions_def
          app_fsm_events_def)
  have b: "canHandle (NewRunApplicationEvent ''app00001'') app_running"
    by (simp add: canHandle_def sm_app_running NewRunApplicationEvent_def transitions_def
          app_fsm_events_def)
  have c: "canHandle (NewSubmitApplicationEvent ''app00001'') app00001"
    by (simp add: canHandle_def sm_app00001 NewSubmitApplicationEvent_def transitions_def
          app_fsm_events_def)
  have e1: "event (NewSubmitApplicationEvent ''app00001'') = SubmitApplication"
    by (simp add: NewSubmitApplicationEvent_def)
  have e2: "event (NewRunApplicationEvent ''app00001'') = RunApplication"
    by (simp add: NewRunApplicationEvent_def)
  note t1 = handle_illegal_event_is_error
              [of "NewSubmitApplicationEvent ''app00001''" app_submitted mock_env]
  note t2 = handle_illegal_event_is_error
              [of "NewRunApplicationEvent ''app00001''" app_running mock_env]
  note t3 = handle_illegal_event_is_error
              [of "NewSubmitApplicationEvent ''app00001''" app00001 mock_env]
  from t1 [THEN conjunct1] a
  have r1: "handle mock_env (NewSubmitApplicationEvent ''app00001'') app_submitted
      = (Some (InvalidEventError SubmitApplication App_Submitted), app_submitted, [])"
    by (simp add: e1 sm_app_submitted)
  have "(event (NewRunApplicationEvent ''app00001''), sm app_running) \<in>
        {(UpdateReservation, App_Reserving), (RunApplication, App_Running),
         (ReleaseAppAllocation, App_Running), (ReleaseAppAllocation, App_Failed),
         (ReleaseAppAllocationAsk, App_Running), (ReleaseAppAllocationAsk, App_Failed)}"
    by (simp add: e2 sm_app_running)
  with t2 [THEN conjunct2, THEN conjunct2]
  have r2: "fst (handle mock_env (NewRunApplicationEvent ''app00001'') app_running) = None \<and>
      sm (fst (snd (handle mock_env (NewRunApplicationEvent ''app00001'') app_running)))
        = sm app_running"
    by blast
  from t3 [THEN conjunct2, THEN conjunct1] c
  have r3: "fst (handle mock_env (NewSubmitApplicationEvent ''app00001'') app00001) = None"
    by blast
  have "(event (NewSubmitApplicationEvent ''app00001''), sm app00001) \<notin>
        {(UpdateReservation, App_Reserving), (RunApplication, App_Running),
         (ReleaseAppAllocation, App_Running), (ReleaseAppAllocation, App_Failed),
         (ReleaseAppAllocationAsk, App_Running), (ReleaseAppAllocationAsk, App_Failed)}"
    by (simp add: e1 sm_app00001)
  with t3 [THEN conjunct2, THEN conjunct2] r3
  have r4: "sm (fst (snd (handle mock_env (NewSubmitApplicationEvent ''app00001'')
      app00001))) \<noteq> sm app00001"
    by blast
  from a b c r1 r2 r3 r4 show ?thesis
    by blast
qed

subsection \<open>\<^verbatim>\<open>Schedule\<close> and the requests to the scheduler\<close>

lemma sanity_checked_append: "sanity_checked (xs @ ys) = sanity_checked xs @ sanity_checked ys"
  by (induction xs rule: sanity_checked.induct) simp_all

lemma initialised_append: "initialised (xs @ ys) = initialised xs @ initialised ys"
  by (induction xs rule: initialised.induct) simp_all

lemma sanity_checked_schedule_task: "sanity_checked (schedule_task cfg t) = [t]"
  by (simp add: schedule_task_def split: option.splits)

lemma initialised_schedule_task:
  "initialised (schedule_task cfg t) = (if sanityCheckBeforeScheduling cfg t = None then [t] else [])"
  by (simp add: schedule_task_def split: option.splits)

lemma sanity_checked_loop:
  "sanity_checked (concat (map (\<lambda>task. if c task then schedule_task cfg task else []) xs))
     = filter c xs"
  by (induction xs) (simp_all add: sanity_checked_append sanity_checked_schedule_task)

lemma initialised_loop:
  "initialised (concat (map (\<lambda>task. if c task then schedule_task cfg task else []) xs))
     = filter (\<lambda>t. c t \<and> sanityCheckBeforeScheduling cfg t = None) xs"
  by (induction xs) (simp_all add: initialised_append initialised_schedule_task)

lemma set_getTasks:
  "set (getTasks app st) = {t. t \<in> snd ` set (taskMap app) \<and> state t = st}"
  by (auto simp add: getTasks_def GetTaskState_def image_iff)

lemma length_getTasks:
  "length (getTasks app st) = length (filter (\<lambda>(k, t). state t = st) (taskMap app))"
  by (simp add: getTasks_def GetTaskState_def)

text \<open>
  C1.  \<^verbatim>\<open>Schedule\<close> in Reserving runs the sanity check on exactly the owned tasks in the
  task state New whose placeholder flag is set, and hands the init event to those of them
  that pass it; in Running it does the same for the tasks in New whose placeholder flag is
  unset.  So every task that \<^verbatim>\<open>Schedule\<close> tries to advance is an owned task in the state New
  with the flag the application state asks for, and a regular task is never advanced in
  Reserving.  \<^verbatim>\<open>Schedule\<close> itself leaves the application as it is in both states.
\<close>

theorem Schedule_gates_tasks_by_placeholder:
  "(sm app = App_Reserving \<longrightarrow>
      fst (Schedule cfg app) = app \<and>
      sanity_checked (snd (Schedule cfg app)) = filter (\<lambda>t. placeholder t) (GetNewTasks app) \<and>
      initialised (snd (Schedule cfg app))
        = filter (\<lambda>t. placeholder t \<and> sanityCheckBeforeScheduling cfg t = None) (GetNewTasks app) \<and>
      (\<forall>t \<in> set (sanity_checked (snd (Schedule cfg app))) \<union> set (initialised (snd (Schedule cfg app))).
         placeholder t \<and> state t = Task_New \<and> t \<in> snd ` set (taskMap app))) \<and>
   (sm app = App_Running \<longrightarrow>
      fst (Schedule cfg app) = app \<and>
      sanity_checked (snd (Schedule cfg app)) = filter (\<lambda>t. \<not> placeholder t) (GetNewTasks app) \<and>
      initialised (snd (Schedule cfg app))
        = filter (\<lambda>t. \<not> placeholder t \<and> sanityCheckBeforeScheduling cfg t = None) (GetNewTasks app) \<and>
      (\<forall>t \<in> set (sanity_checked (snd (Schedule cfg app))) \<union> set (initialised (snd (Schedule cfg app))).
         \<not> placeholder t \<and> state t = Task_New \<and> t \<in> snd ` set (taskMap app)))"
  by (auto simp add: Schedule_def GetApplicationState_def scheduleTasks_def sanity_checked_loop
        initialised_loop GetNewTasks_def set_getTasks)


lemma sm_app_reserving: "sm app_reserving = App_Reserving"
  by (simp add: app_reserving_def SetState_def)

lemma sm_app_running_tasks: "sm app_running_tasks = App_Running"
  by (simp add: app_running_tasks_def SetState_def)

lemma taskMap_three_tasks:
  "taskMap (three_tasks app00001) =
     [(''task01'', test_task ''task01'' Task_New True ''test-group-1'' 1),
      (''task02'', test_task ''task02'' Task_New False [] 2),
      (''task03'', test_task ''task03'' Task_Pending True ''test-group-1'' 3)]"
  by (simp add: three_tasks_def addTask_def app00001_def NewApplication_def test_task_def)

lemma new_tasks_reserving:
  "GetNewTasks app_reserving =
     [test_task ''task01'' Task_New True ''test-group-1'' 1, test_task ''task02'' Task_New False [] 2]"
  by (simp add: GetNewTasks_def getTasks_def GetTaskState_def app_reserving_def SetState_def
        taskMap_three_tasks test_task_def)

lemma new_tasks_running:
  "GetNewTasks app_running_tasks =
     [test_task ''task01'' Task_New True ''test-group-1'' 1, test_task ''task02'' Task_New False [] 2]"
  by (simp add: GetNewTasks_def getTasks_def GetTaskState_def app_running_tasks_def SetState_def
        taskMap_three_tasks test_task_def)

theorem Schedule_gates_tasks_by_placeholder_witness:
  "sm app_reserving = App_Reserving \<and>
   sanity_checked (snd (Schedule mock_env app_reserving))
     = [test_task ''task01'' Task_New True ''test-group-1'' 1] \<and>
   initialised (snd (Schedule mock_env app_reserving))
     = [test_task ''task01'' Task_New True ''test-group-1'' 1] \<and>
   sm app_running_tasks = App_Running \<and>
   sanity_checked (snd (Schedule mock_env app_running_tasks))
     = [test_task ''task02'' Task_New False [] 2] \<and>
   initialised (snd (Schedule mock_env app_running_tasks))
     = [test_task ''task02'' Task_New False [] 2]"
  using Schedule_gates_tasks_by_placeholder [of app_reserving mock_env]
    Schedule_gates_tasks_by_placeholder [of app_running_tasks mock_env]
  by (simp add: sm_app_reserving sm_app_running_tasks new_tasks_reserving new_tasks_running
        test_task_def mock_env_def)

lemma dispatched_append: "dispatched (xs @ ys) = dispatched xs @ dispatched ys"
  by (induction xs rule: dispatched.induct) simp_all

text \<open>
  C2.  In Accepted, \<^verbatim>\<open>Schedule\<close> dispatches TryReserve exactly when the list of task groups
  is not empty and no owned task is in the task state Allocated, and dispatches Run
  otherwise (TryReserve is dispatched twice: once inside the branch of \<^verbatim>\<open>postAppAccepted\<close>
  and once by the \<^verbatim>\<open>Dispatch\<close> that ends it).  Handled in Accepted, TryReserve leads to
  Reserving and Run leads to Running, so an application with an Allocated task goes to
  Running without passing through Reserving.
\<close>

theorem Schedule_accepted_gang_decision:
  assumes "sm app = App_Accepted"
  shows "fst (Schedule cfg app) = app \<and>
    dispatched (snd (Schedule cfg app)) =
      (if taskGroups app \<noteq> [] \<and>
          length (filter (\<lambda>(k, t). state t = Task_Allocated) (taskMap app)) = 0
       then [NewSimpleApplicationEvent (applicationID app) TryReserve,
             NewSimpleApplicationEvent (applicationID app) TryReserve]
       else [NewRunApplicationEvent (applicationID app)]) \<and>
    sm (fst (snd (handle cfg (NewSimpleApplicationEvent (applicationID app) TryReserve) app)))
      = App_Reserving \<and>
    sm (fst (snd (handle cfg (NewRunApplicationEvent (applicationID app)) app))) = App_Running"
proof -
  have t1: "transitions app_fsm_events
              (event (NewSimpleApplicationEvent (applicationID app) TryReserve)) (sm app)
            = Some App_Reserving"
    by (simp add: assms NewSimpleApplicationEvent_def transitions_def app_fsm_events_def)
  have t2: "transitions app_fsm_events
              (event (NewRunApplicationEvent (applicationID app))) (sm app) = Some App_Running"
    by (simp add: assms NewRunApplicationEvent_def transitions_def app_fsm_events_def)
  have s: "Schedule cfg app = (app, postAppAccepted app)"
    by (simp add: Schedule_def GetApplicationState_def assms)
  have d: "dispatched (postAppAccepted app) =
      (if taskGroups app \<noteq> [] \<and>
          length (filter (\<lambda>(k, t). state t = Task_Allocated) (taskMap app)) = 0
       then [NewSimpleApplicationEvent (applicationID app) TryReserve,
             NewSimpleApplicationEvent (applicationID app) TryReserve]
       else [NewRunApplicationEvent (applicationID app)])"
    by (simp add: postAppAccepted_def length_getTasks)
  show ?thesis
    using handle_legal [OF t1, of cfg] handle_legal [OF t2, of cfg] by (simp add: s d)
qed


lemma accepted_gang:
  "sm app_accepted_gang = App_Accepted" "applicationID app_accepted_gang = ''app00001''"
  "taskMap app_accepted_gang = []" "taskGroups app_accepted_gang = [test_group_1, test_group_2]"
  by (simp_all add: app_accepted_gang_def SetState_def setTaskGroups_def app00001_def
        NewApplication_def)

lemma accepted_recovered:
  "sm app_accepted_recovered = App_Accepted" "applicationID app_accepted_recovered = ''app00001''"
  "taskMap app_accepted_recovered = [(''task00'', test_task ''task00'' Task_Allocated False [] 0)]"
  "taskGroups app_accepted_recovered = [test_group_1, test_group_2]"
  by (simp_all add: app_accepted_recovered_def addTask_def accepted_gang test_task_def)

theorem Schedule_accepted_gang_decision_witness:
  "sm app_accepted_gang = App_Accepted \<and>
   dispatched (snd (Schedule mock_env app_accepted_gang))
     = [NewSimpleApplicationEvent ''app00001'' TryReserve,
        NewSimpleApplicationEvent ''app00001'' TryReserve] \<and>
   sm app_accepted_recovered = App_Accepted \<and>
   dispatched (snd (Schedule mock_env app_accepted_recovered))
     = [NewRunApplicationEvent ''app00001''] \<and>
   sm (fst (snd (handle mock_env (NewRunApplicationEvent ''app00001'') app_accepted_recovered)))
     = App_Running"
  using Schedule_accepted_gang_decision [of app_accepted_gang mock_env]
    Schedule_accepted_gang_decision [of app_accepted_recovered mock_env]
  by (simp add: accepted_gang accepted_recovered test_task_def)

text \<open>
  C10.  The one request that the Recover callback sends to the scheduler carries the
  identifier, queue, partition, user, tags and the timeout times 1000, and no placeholder
  ask, whatever ask the application has accumulated; the request of the Submit callback
  is the same but for the placeholder ask, which is the ask of the application.
\<close>

theorem recover_request_has_no_placeholder_ask:
  "requests (snd (handleRecoverApplicationEvent cfg app ev)) =
     [\<lparr>NewApplications =
         [\<lparr>req_ApplicationID = applicationID app, req_QueueName = queue app,
           req_PartitionName = partitionName app, req_Ugi_User = user app,
           req_Tags = tags app, req_PlaceholderAsk = None,
           req_ExecutionTimeoutMilliSeconds = placeholderTimeoutInSec app * 1000\<rparr>],
       RmID = ClusterID cfg\<rparr>] \<and>
   requests (snd (handleSubmitApplicationEvent cfg app ev)) =
     [\<lparr>NewApplications =
         [\<lparr>req_ApplicationID = applicationID app, req_QueueName = queue app,
           req_PartitionName = partitionName app, req_Ugi_User = user app,
           req_Tags = tags app, req_PlaceholderAsk = getPlaceholderAsk app,
           req_ExecutionTimeoutMilliSeconds = placeholderTimeoutInSec app * 1000\<rparr>],
       RmID = ClusterID cfg\<rparr>]"
  by (simp add: handleRecoverApplicationEvent_def handleSubmitApplicationEvent_def
        recover_request_def submit_request_def getPlaceholderAsk_def split: option.splits)

subsection \<open>Releasing an allocation ask; failing the application\<close>

lemma map_of_assign: "map_of (assign k v m) = (map_of m)(k \<mapsto> v)"
  by (induction m) (auto simp add: fun_eq_iff)

lemma parse_two_strings: "GetEventArgsAsStrings 2 [StrArg a, StrArg b] = Inr [a, b]"
  by (simp add: GetEventArgsAsStrings_def)

lemma taskMap_three_tasks':
  "taskMap app_running_tasks =
     [(''task01'', test_task ''task01'' Task_New True ''test-group-1'' 1),
      (''task02'', test_task ''task02'' Task_New False [] 2),
      (''task03'', test_task ''task03'' Task_Pending True ''test-group-1'' 3)]"
  by (simp add: app_running_tasks_def SetState_def taskMap_three_tasks)

text \<open>
  C8.  The ReleaseAllocationAsk callback, given the arguments of a ReleaseAllocationAsk
  event for a task identifier: when the task map has a task under that identifier, the
  termination type is recorded on that task, every other task and every other field of the
  application stay as they are, and the pod of the task is deleted exactly when the task is
  a placeholder (for a regular task the callback only logs that it skips the release); when
  the task map has no such task, the application is unchanged and no pod is deleted.
\<close>

theorem release_ask_deletes_only_placeholders:
  assumes "fsm_Args ev = args (NewReleaseAppAllocationAskEvent appID termType tid)"
  shows
   "(\<forall>task. map_of (taskMap app) tid = Some task \<longrightarrow>
       map_of (taskMap (fst (handleReleaseAppAllocationAskEvent cfg app ev))) tid
         = Some (task\<lparr>terminationType := termType\<rparr>) \<and>
       (\<forall>k. k \<noteq> tid \<longrightarrow>
          map_of (taskMap (fst (handleReleaseAppAllocationAskEvent cfg app ev))) k
            = map_of (taskMap app) k) \<and>
       (fst (handleReleaseAppAllocationAskEvent cfg app ev))\<lparr>taskMap := taskMap app\<rparr> = app \<and>
       deleted_pods (snd (handleReleaseAppAllocationAskEvent cfg app ev))
         = (if placeholder task then [task\<lparr>terminationType := termType\<rparr>] else []) \<and>
       (\<not> placeholder task \<longrightarrow>
          snd (handleReleaseAppAllocationAskEvent cfg app ev)
            = [Log Info ''try to release pod from application'',
               Log Warn ''skip to release allocation ask, ask is not a placeholder''])) \<and>
    (map_of (taskMap app) tid = None \<longrightarrow>
       fst (handleReleaseAppAllocationAskEvent cfg app ev) = app \<and>
       deleted_pods (snd (handleReleaseAppAllocationAskEvent cfg app ev)) = [])"
  using assms
  by (auto simp add: handleReleaseAppAllocationAskEvent_def NewReleaseAppAllocationAskEvent_def
        parse_two_strings map_of_assign setTaskTerminationType_def IsPlaceholder_def
        delete_pod_def split: option.splits)

theorem release_ask_deletes_only_placeholders_witness:
  "fsm_Args (release_ask_event ''task01'')
     = args (NewReleaseAppAllocationAskEvent ''app00001'' ''TIMEOUT'' ''task01'') \<and>
   map_of (taskMap app_running_tasks) ''task01''
     = Some (test_task ''task01'' Task_New True ''test-group-1'' 1) \<and>
   deleted_pods (snd (handleReleaseAppAllocationAskEvent mock_env app_running_tasks
                        (release_ask_event ''task01'')))
     = [(test_task ''task01'' Task_New True ''test-group-1'' 1)\<lparr>terminationType := ''TIMEOUT''\<rparr>] \<and>
   map_of (taskMap app_running_tasks) ''task02'' = Some (test_task ''task02'' Task_New False [] 2) \<and>
   map_of (taskMap (fst (handleReleaseAppAllocationAskEvent mock_env app_running_tasks
                           (release_ask_event ''task02'')))) ''task02''
     = Some ((test_task ''task02'' Task_New False [] 2)\<lparr>terminationType := ''TIMEOUT''\<rparr>) \<and>
   deleted_pods (snd (handleReleaseAppAllocationAskEvent mock_env app_running_tasks
                        (release_ask_event ''task02''))) = [] \<and>
   map_of (taskMap app_running_tasks) ''task99'' = None \<and>
   fst (handleReleaseAppAllocationAskEvent mock_env app_running_tasks
          (release_ask_event ''task99'')) = app_running_tasks"
proof -
  have a: "fsm_Args (release_ask_event tid)
             = args (NewReleaseAppAllocationAskEvent ''app00001'' ''TIMEOUT'' tid)" for tid
    by (simp add: release_ask_event_def)
  have m: "map_of (taskMap app_running_tasks) ''task01''
             = Some (test_task ''task01'' Task_New True ''test-group-1'' 1)"
    "map_of (taskMap app_running_tasks) ''task02'' = Some (test_task ''task02'' Task_New False [] 2)"
    "map_of (taskMap app_running_tasks) ''task99'' = None"
    by (simp_all add: taskMap_three_tasks')
  have p: "placeholder (test_task ''task01'' Task_New True ''test-group-1'' 1)"
    "\<not> placeholder (test_task ''task02'' Task_New False [] 2)"
    by (simp_all add: test_task_def)
  show ?thesis
    using release_ask_deletes_only_placeholders [where ev = "release_ask_event ''task01''" and appID = "''app00001''"
        and termType = "''TIMEOUT''" and tid = "''task01''" and app = app_running_tasks and cfg = mock_env]
      release_ask_deletes_only_placeholders [where ev = "release_ask_event ''task02''" and appID = "''app00001''"
        and termType = "''TIMEOUT''" and tid = "''task02''" and app = app_running_tasks and cfg = mock_env]
      release_ask_deletes_only_placeholders [where ev = "release_ask_event ''task99''" and appID = "''app00001''"
        and termType = "''TIMEOUT''" and tid = "''task99''" and app = app_running_tasks and cfg = mock_env]
    by (simp add: a m p)
qed

text \<open>
  C9, as the claim states it, fails: the Fail callback starts the goroutine that asks the
  placeholder manager to clean up before it parses the arguments, so the cleanup is
  requested also when the arguments are malformed.
\<close>

theorem fail_with_malformed_args_counterexample:
  "isl (GetEventArgsAsStrings 1 (args malformed_fail_event)) \<and>
   sm app_running_tasks = App_Running \<and>
   snd (snd (handle mock_env malformed_fail_event app_running_tasks))
     = [Log Debug ''shim app state transition'', Go [CleanUp],
        Log Error ''fail to parse event arg''] \<and>
   CleanUp \<in> set (in_goroutines (snd (snd (handle mock_env malformed_fail_event app_running_tasks))))"
proof -
  have p: "GetEventArgsAsStrings (Suc 0) [OtherArg] = Inl ''argument is not a string''"
    by (simp add: GetEventArgsAsStrings_def)
  have t: "transitions app_fsm_events FailApplication App_Running = Some App_Failed"
    by (simp add: transitions_def app_fsm_events_def)
  have h: "snd (snd (handle mock_env malformed_fail_event app_running_tasks))
     = [Log Debug ''shim app state transition'', Go [CleanUp],
        Log Error ''fail to parse event arg'']"
    by (simp add: handle_def sm_Event_def malformed_fail_event_def sm_app_running_tasks t
          enterStateCallbacks_def enterState_def afterEventCallbacks_def
          handleFailApplicationEvent_def p)
  show ?thesis
    by (simp add: h sm_app_running_tasks) (simp add: malformed_fail_event_def p)
qed

text \<open>
  C9, amended.  A Fail event whose arguments cannot be parsed, handled in a state from which
  Fail is legal: \<^verbatim>\<open>handle\<close> returns no error and the application is in Failed, otherwise
  unchanged; the callback requests the placeholder cleanup, logs the parse error and does
  nothing else, so no warning is published for any task.
\<close>

theorem fail_with_malformed_args:
  assumes "event ev = FailApplication"
    and "sm app \<in> {App_Submitted, App_Rejected, App_Accepted, App_Running, App_Reserving}"
    and "isl (GetEventArgsAsStrings 1 (args ev))"
  shows "handle cfg ev app =
           (None, app\<lparr>sm := App_Failed\<rparr>,
            [Log Debug ''shim app state transition'', Go [CleanUp],
             Log Error ''fail to parse event arg''])"
proof -
  have t: "transitions app_fsm_events FailApplication (sm app) = Some App_Failed"
    using assms(2) by (auto simp add: transitions_def app_fsm_events_def)
  have n: "sm app \<noteq> App_Failed"
    using assms(2) by auto
  obtain err where e: "GetEventArgsAsStrings 1 (args ev) = Inl err"
    using assms(3) by (cases "GetEventArgsAsStrings 1 (args ev)") auto
  from e have e': "GetEventArgsAsStrings (Suc 0) (args ev) = Inl err"
    by simp
  show ?thesis
    by (simp add: handle_def sm_Event_def assms(1) t n enterStateCallbacks_def enterState_def
          afterEventCallbacks_def handleFailApplicationEvent_def e')
qed

theorem fail_with_malformed_args_witness:
  "event malformed_fail_event = FailApplication \<and>
   sm app_running_tasks = App_Running \<and>
   isl (GetEventArgsAsStrings 1 (args malformed_fail_event)) \<and>
   handle mock_env malformed_fail_event app_running_tasks =
     (None, app_running_tasks\<lparr>sm := App_Failed\<rparr>,
      [Log Debug ''shim app state transition'', Go [CleanUp],
       Log Error ''fail to parse event arg''])"
proof -
  have a: "event malformed_fail_event = FailApplication"
    by (simp add: malformed_fail_event_def)
  have b: "sm app_running_tasks \<in> {App_Submitted, App_Rejected, App_Accepted, App_Running, App_Reserving}"
    by (simp add: sm_app_running_tasks)
  have c: "isl (GetEventArgsAsStrings 1 (args malformed_fail_event))"
    by (simp add: malformed_fail_event_def GetEventArgsAsStrings_def)
  show ?thesis
    using fail_with_malformed_args [OF a b c, of mock_env] a c
    by (simp add: sm_app_running_tasks)
qed

subsection \<open>The placeholder ask\<close>

lemma round_up_500Mi: "ScaledValue_Mega (Mi 500) = 525"
  by (simp add: ScaledValue_Mega_def Mi_def Ki_def ceil_div_def)

lemma round_up_1000Mi: "ScaledValue_Mega (Mi 1000) = 1049"
  by (simp add: ScaledValue_Mega_def Mi_def Ki_def ceil_div_def)

lemma contribution_1: "contribution test_group_1 = [CPU \<mapsto> 5000, Memory \<mapsto> 5250]"
  by (simp add: contribution_def test_group_1_def GetTGResource_def tg_entry_def
        round_up_500Mi MilliValue_def milli_def CPU_def Memory_def)

lemma contribution_2: "contribution test_group_2 = [CPU \<mapsto> 20000, Memory \<mapsto> 20980]"
  by (simp add: contribution_def test_group_2_def GetTGResource_def tg_entry_def
        round_up_1000Mi MilliValue_def milli_def CPU_def Memory_def)

lemma tg_step_contribution: "tg_step ask tg = Some (Add ask (Some (contribution tg)))"
  by (simp add: tg_step_def contribution_def)

lemma test_groups_ask:
  "getPlaceholderAsk
     (setTaskGroups [test_group_1, test_group_2] (NewApplication appID queueName usr tgs))
     = Some [Memory \<mapsto> 26230, CPU \<mapsto> 25000]"
proof -
  have "Add (Some (Add None (Some (contribution test_group_1)))) (Some (contribution test_group_2))
          = [Memory \<mapsto> 26230, CPU \<mapsto> 25000]"
    by (auto simp add: contribution_1 contribution_2 Add_def add_res_def fun_eq_iff CPU_def
          Memory_def)
  then show ?thesis
    by (simp add: getPlaceholderAsk_def setTaskGroups_def NewApplication_def
          tg_step_contribution)
qed

text \<open>
  C6.  Registering the task groups \<^verbatim>\<open>{minMember: 10, 500m CPU, 500Mi memory}\<close> and
  \<^verbatim>\<open>{minMember: 20, 1000m CPU, 1000Mi memory}\<close> on a fresh application gives the placeholder
  ask CPU = 25000 and memory = 26230: the memory of one member is rounded up to a whole
  unit first (500Mi to 525, 1000Mi to 1049) and then multiplied by the member count
  (5250 and 20980).
\<close>

theorem placeholder_ask_of_test_groups:
  "getPlaceholderAsk
     (setTaskGroups [test_group_1, test_group_2] (NewApplication appID queueName usr tgs))
     = Some [Memory \<mapsto> 26230, CPU \<mapsto> 25000] \<and>
   ScaledValue_Mega (Mi 500) = 525 \<and> contribution test_group_1 Memory = Some (525 * 10) \<and>
   ScaledValue_Mega (Mi 1000) = 1049 \<and> contribution test_group_2 Memory = Some (1049 * 20)"
  by (simp add: test_groups_ask round_up_500Mi round_up_1000Mi)
     (simp add: contribution_1 contribution_2 CPU_def Memory_def)


















subsection \<open>The reservation phase\<close>


























end
